theory Spec2Isabelle
  imports Main "HOL-Library.Sublist"
begin

section \<open>Data model of src/src/App.tsx\<close>

text \<open>
  \<^verbatim>\<open>type ObjectType = "box" | "sphere" | "cylinder" | "mug" | "shirt";\<close>
  The union of string literals is an enumeration, in the order of the declaration.
\<close>

datatype ObjectType = box | sphere | cylinder | mug | shirt

text \<open>
  \<^verbatim>\<open>interface SceneProps { textureUrl: string | null; selectedObject: ObjectType; darkMode: boolean }\<close>
  The three \<^verbatim>\<open>useState\<close> cells of \<^verbatim>\<open>App\<close> have the names and the types of these
  fields, so the same record is the state of the application.
\<close>

record SceneProps =
  textureUrl :: "string option"
  selectedObject :: ObjectType
  darkMode :: bool

type_synonym AppState = SceneProps

text \<open>
  The part of a browser \<^verbatim>\<open>File\<close> that the code reads (\<^verbatim>\<open>file.type\<close>, the media type),
  and its name.
\<close>

record File =
  name :: string
  type :: string

subsection \<open>\<^verbatim>\<open>String.prototype.match\<close> on the pattern of the upload handler\<close>

text \<open>
  \<^verbatim>\<open>file.type.match("image.*")\<close> receives a string, which JavaScript compiles with
  \<^verbatim>\<open>new RegExp\<close>, and searches the subject for the first position where the
  expression matches; the result is \<^verbatim>\<open>null\<close> (falsy) when there is none. The fragment of
  the expression language that the pattern uses is embedded: a literal character, the
  dot (any character that is not a line terminator), and the star after either. Media
  types are ASCII, so of the line terminators only line feed and carriage return are
  characters here.
\<close>

datatype re_atom = Lit char | AnyChar

datatype re_item = One re_atom | Star re_atom

definition re_atom_of :: "char \<Rightarrow> re_atom" where
  "re_atom_of c = (if c = CHR ''.'' then AnyChar else Lit c)"

fun RegExp :: "string \<Rightarrow> re_item list" where
  "RegExp [] = []"
| "RegExp [c] = [One (re_atom_of c)]"
| "RegExp (c # d # r) =
     (if d = CHR ''*'' then Star (re_atom_of c) # RegExp r
      else One (re_atom_of c) # RegExp (d # r))"

definition line_terminator :: "char \<Rightarrow> bool" where
  "line_terminator c = (c = CHR 0x0A \<or> c = CHR 0x0D)"

fun atom_matches :: "re_atom \<Rightarrow> char \<Rightarrow> bool" where
  "atom_matches (Lit c) x = (x = c)"
| "atom_matches AnyChar x = (\<not> line_terminator x)"

fun match_here :: "re_item list \<Rightarrow> string \<Rightarrow> bool" where
  "match_here [] s = True"
| "match_here (One a # r) [] = False"
| "match_here (One a # r) (x # xs) = (atom_matches a x \<and> match_here r xs)"
| "match_here (Star a # r) [] = match_here r []"
| "match_here (Star a # r) (x # xs) =
     (match_here r (x # xs) \<or> (atom_matches a x \<and> match_here (Star a # r) xs))"

fun match_search :: "re_item list \<Rightarrow> string \<Rightarrow> bool" where
  "match_search r [] = match_here r []"
| "match_search r (x # xs) = (match_here r (x # xs) \<or> match_search r xs)"

definition String_match :: "string \<Rightarrow> string \<Rightarrow> bool" where
  \<comment> \<open>the truthiness of \<^verbatim>\<open>subject.match(pattern)\<close>\<close>
  "String_match subject pattern = match_search (RegExp pattern) subject"

subsection \<open>The event handlers of \<^verbatim>\<open>App\<close>\<close>

text \<open>
  \<^verbatim>\<open>const file = event.target.files?.[0];\<close>
  \<^verbatim>\<open>files\<close> is a list of files or \<^verbatim>\<open>null\<close>; the optional chain and the index give
  \<^verbatim>\<open>undefined\<close> for \<^verbatim>\<open>null\<close> and for the empty list.
\<close>

definition first_file :: "File list option \<Rightarrow> File option" where
  "first_file files =
     (case files of None \<Rightarrow> None | Some fs \<Rightarrow> (case fs of [] \<Rightarrow> None | f # _ \<Rightarrow> Some f))"

text \<open>
  \<^verbatim>\<open>if (file && file.type.match("image.*")) { const url = URL.createObjectURL(file); setTextureUrl(url); }\<close>
  \<^verbatim>\<open>URL.createObjectURL\<close> belongs to the browser and is not a function of the file alone
  (each call registers a new URL), so it is a parameter that reads and updates a browser
  state \<open>'w\<close>. The handler has no other branch: it returns normally on every event.
\<close>

definition handleFileChange ::
  "('w \<Rightarrow> File \<Rightarrow> string \<times> 'w) \<Rightarrow> File list option \<Rightarrow> 'w \<times> AppState \<Rightarrow> 'w \<times> AppState" where
  "handleFileChange createObjectURL files ws =
     (case first_file files of
        None \<Rightarrow> ws
      | Some file \<Rightarrow>
          if String_match (type file) ''image.*''
          then (case createObjectURL (fst ws) file of
                  (url, w') \<Rightarrow> (w', (snd ws)\<lparr>textureUrl := Some url\<rparr>))
          else ws)"

text \<open>
  \<^verbatim>\<open>setSelectedObject(event.target.value as ObjectType);\<close>
  The cast is unchecked; the event carries the value of the chosen option.
\<close>

definition handleObjectChange :: "ObjectType \<Rightarrow> AppState \<Rightarrow> AppState" where
  "handleObjectChange v st = st\<lparr>selectedObject := v\<rparr>"

text \<open>The values of the four \<^verbatim>\<open><option>\<close> elements of the selector, in order.\<close>

definition select_options :: "ObjectType list" where
  "select_options = [box, cylinder, mug, shirt]"

text \<open>\<^verbatim>\<open>setDarkMode(!darkMode);\<close>\<close>

definition toggleDarkMode :: "AppState \<Rightarrow> AppState" where
  "toggleDarkMode st = st\<lparr>darkMode := \<not> darkMode st\<rparr>"

text \<open>
  The initial values of the three cells; the theme starts from
  \<^verbatim>\<open>window.matchMedia("(prefers-color-scheme: dark)").matches\<close>, a parameter.
\<close>

definition App_init :: "bool \<Rightarrow> AppState" where
  "App_init prefers_dark = \<lparr>textureUrl = None, selectedObject = box, darkMode = prefers_dark\<rparr>"

text \<open>
  The events that the controls of the page can deliver: a change of the file input, a
  change of the selector to one of its options, a click on the theme button.
\<close>

datatype Event = FileChange "File list option" | ObjectChange ObjectType | ToggleDarkMode

fun App_step :: "('w \<Rightarrow> File \<Rightarrow> string \<times> 'w) \<Rightarrow> Event \<Rightarrow> 'w \<times> AppState \<Rightarrow> 'w \<times> AppState" where
  "App_step cou (FileChange files) ws = handleFileChange cou files ws"
| "App_step cou (ObjectChange v) ws = (fst ws, handleObjectChange v (snd ws))"
| "App_step cou ToggleDarkMode ws = (fst ws, toggleDarkMode (snd ws))"

fun offered :: "Event \<Rightarrow> bool" where
  "offered (ObjectChange v) = (v \<in> set select_options)"
| "offered _ = True"

fun App_run :: "('w \<Rightarrow> File \<Rightarrow> string \<times> 'w) \<Rightarrow> Event list \<Rightarrow> 'w \<times> AppState \<Rightarrow> 'w \<times> AppState" where
  "App_run cou [] ws = ws"
| "App_run cou (e # es) ws = App_run cou es (App_step cou e ws)"

section \<open>The scene graph\<close>

text \<open>
  A \<^verbatim>\<open><meshStandardMaterial>\<close> element with the props the source writes on it. A prop
  that the element does not carry is \<open>None\<close>; \<^verbatim>\<open>map={texture}\<close> with the null texture
  is \<open>Some None\<close>, with a texture handle \<open>t\<close> it is \<open>Some (Some t)\<close>. A material is
  designated for the texture when it carries the \<^verbatim>\<open>map\<close> prop.
\<close>

record 'tex meshStandardMaterial =
  attach :: "string option"
  color :: "string option"
  map_prop :: "'tex option option"

text \<open>
  The geometry of a mesh: one of the two built-in primitives with its arguments, or the
  geometry of a named node of a model file read by \<^verbatim>\<open>useGLTF\<close>.
\<close>

datatype geometry =
  boxGeometry "nat list"
| cylinderGeometry "nat list"
| nodes_geometry string string

text \<open>
  What a presenter returns: a mesh with its geometry and materials, or a group of
  such. Transform and shadow props (\<^verbatim>\<open>scale\<close>, \<^verbatim>\<open>rotation\<close>, \<^verbatim>\<open>castShadow\<close>,
  \<^verbatim>\<open>receiveShadow\<close>, \<^verbatim>\<open>dispose\<close>) bind neither a color nor a texture and are left out.
\<close>

datatype 'tex object3d =
  mesh geometry "'tex meshStandardMaterial list"
| group "'tex object3d list"

definition flat :: "string option \<Rightarrow> string \<Rightarrow> 'tex meshStandardMaterial" where
  \<comment> \<open>\<^verbatim>\<open><meshStandardMaterial attach=... color=... />\<close>\<close>
  "flat a c = \<lparr>attach = a, color = Some c, map_prop = None\<rparr>"

definition Box :: "'tex option \<Rightarrow> bool \<Rightarrow> 'tex object3d" where
  "Box texture dark =
     mesh (boxGeometry [2, 2, 2])
       [ flat (Some ''material-0'') (if dark then ''white'' else ''#e2e8f0''),
         flat (Some ''material-1'') (if dark then ''white'' else ''#e2e8f0''),
         flat (Some ''material-2'') (if dark then ''white'' else ''#e2e8f0''),
         flat (Some ''material-3'') (if dark then ''white'' else ''#e2e8f0''),
         \<lparr>attach = Some ''material-4'', color = None, map_prop = Some texture\<rparr>,
         flat (Some ''material-5'') (if dark then ''white'' else ''#e2e8f0'') ]"

definition Cylinder :: "'tex option \<Rightarrow> bool \<Rightarrow> 'tex object3d" where
  "Cylinder texture dark =
     mesh (cylinderGeometry [1, 1, 2, 32])
       [ \<lparr>attach = Some ''material-0'', color = None, map_prop = Some texture\<rparr>,
         flat (Some ''material-1'') (if dark then ''white'' else ''#e2e8f0''),
         flat (Some ''material-2'') (if dark then ''white'' else ''#e2e8f0'') ]"

definition Mug :: "'tex option \<Rightarrow> bool \<Rightarrow> 'tex object3d" where
  "Mug texture dark =
     group
       [ mesh (nodes_geometry ''plain_mug.glb'' ''Object_2'')
           [ \<lparr>attach = Some ''material'',
              color = Some (if dark then ''white'' else ''#e2e8f0''),
              map_prop = Some texture\<rparr> ] ]"

definition Shirt :: "'tex option \<Rightarrow> bool \<Rightarrow> 'tex object3d" where
  "Shirt texture dark =
     group
       [ mesh (nodes_geometry ''long_sleeve_t_shirt.glb''
                 ''Long_Sleeve_T-Shirt_Bahan_Dasar_FRONT_2657_0'')
           [ \<lparr>attach = None, color = None, map_prop = Some texture\<rparr> ],
         mesh (nodes_geometry ''long_sleeve_t_shirt.glb''
                 ''Long_Sleeve_T-Shirt_Bahan_Dasar_FRONT_2657_0_1'')
           [ flat None (if dark then ''#222222'' else ''#ffffff'') ],
         mesh (nodes_geometry ''long_sleeve_t_shirt.glb''
                 ''Long_Sleeve_T-Shirt_Material2868_0'')
           [ flat None (if dark then ''#222222'' else ''#ffffff'') ],
         mesh (nodes_geometry ''long_sleeve_t_shirt.glb''
                 ''Long_Sleeve_T-Shirt_Material2868_0_1'')
           [ flat None (if dark then ''#222222'' else ''#ffffff'') ] ]"

text \<open>
  The element that \<^verbatim>\<open>Scene\<close> writes for a presenter: the component and its two props,
  \<^verbatim>\<open>texture\<close> and \<^verbatim>\<open>darkMode\<close>.
\<close>

datatype 'tex element =
  Box_element "'tex option" bool
| Cylinder_element "'tex option" bool
| Mug_element "'tex option" bool
| Shirt_element "'tex option" bool

fun render :: "'tex element \<Rightarrow> 'tex object3d" where
  "render (Box_element t d) = Box t d"
| "render (Cylinder_element t d) = Cylinder t d"
| "render (Mug_element t d) = Mug t d"
| "render (Shirt_element t d) = Shirt t d"

text \<open>
  \<^verbatim>\<open>const texture = textureUrl ? useTexture(textureUrl) : null;\<close>
  The test is JavaScript truthiness: \<^verbatim>\<open>null\<close> and the empty string are falsy. The
  loader \<^verbatim>\<open>useTexture\<close> is a parameter.
\<close>

definition Scene_texture :: "(string \<Rightarrow> 'tex) \<Rightarrow> string option \<Rightarrow> 'tex option" where
  "Scene_texture useTexture url =
     (case url of
        None \<Rightarrow> None
      | Some u \<Rightarrow> if u = [] then None else Some (useTexture u))"

text \<open>
  The fragment that \<^verbatim>\<open>Scene\<close> returns has four children, each
  \<^verbatim>\<open>{selectedObject === K && <P texture={texture} darkMode={darkMode} />}\<close>: the element
  when the comparison holds, \<^verbatim>\<open>false\<close> (here \<open>None\<close>, nothing is mounted for it)
  otherwise.
\<close>

definition Scene :: "(string \<Rightarrow> 'tex) \<Rightarrow> SceneProps \<Rightarrow> 'tex element option list" where
  "Scene useTexture p =
     (let texture = Scene_texture useTexture (textureUrl p) in
      [ if selectedObject p = box then Some (Box_element texture (darkMode p)) else None,
        if selectedObject p = cylinder then Some (Cylinder_element texture (darkMode p)) else None,
        if selectedObject p = mug then Some (Mug_element texture (darkMode p)) else None,
        if selectedObject p = shirt then Some (Shirt_element texture (darkMode p)) else None ])"

text \<open>The presenters that a fragment mounts: its children that are elements.\<close>

fun mounted :: "'a option list \<Rightarrow> 'a list" where
  "mounted [] = []"
| "mounted (None # cs) = mounted cs"
| "mounted (Some e # cs) = e # mounted cs"

text \<open>
  \<^verbatim>\<open><Scene key={textureUrl} textureUrl={textureUrl} selectedObject={selectedObject} darkMode={darkMode} />\<close>
  as \<^verbatim>\<open>App\<close> writes it: the key of the element and its props. React keeps the key of
  an element as a string (\<^verbatim>\<open>'' + key\<close>), so the null texture source gives the key
  \<^verbatim>\<open>"null"\<close>.
\<close>

record Scene_element =
  key :: string
  props :: SceneProps

definition React_key :: "string option \<Rightarrow> string" where
  "React_key k = (case k of None \<Rightarrow> ''null'' | Some s \<Rightarrow> s)"

definition App_Scene :: "AppState \<Rightarrow> Scene_element" where
  "App_Scene st =
     \<lparr>key = React_key (textureUrl st),
      props = \<lparr>textureUrl = textureUrl st, selectedObject = selectedObject st,
               darkMode = darkMode st\<rparr>\<rparr>"

text \<open>
  React keeps the instance of an element across two renders when the element at that
  place has the same component and the same key, and updates its props in place;
  otherwise it unmounts the old instance with everything below it and mounts a new one.
  The component here is \<^verbatim>\<open>Scene\<close> in every render, so the key decides.
\<close>

definition remounted :: "Scene_element \<Rightarrow> Scene_element \<Rightarrow> bool" where
  "remounted old new = (key old \<noteq> key new)"

text \<open>The presenters mounted in a state, and the objects they render.\<close>

definition presenters :: "(string \<Rightarrow> 'tex) \<Rightarrow> AppState \<Rightarrow> 'tex element list" where
  "presenters useTexture st = mounted (Scene useTexture (props (App_Scene st)))"

definition view :: "(string \<Rightarrow> 'tex) \<Rightarrow> AppState \<Rightarrow> 'tex object3d list" where
  "view useTexture st = map render (presenters useTexture st)"

subsection \<open>Reading a scene\<close>

text \<open>
  The surface regions of an object: each material with the geometry of its mesh (the
  \<^verbatim>\<open>attach\<close> slot of the material names the part of the geometry).
\<close>

fun regions :: "'tex object3d \<Rightarrow> (geometry \<times> 'tex meshStandardMaterial) list" where
  "regions (mesh g ms) = map (Pair g) ms"
| "regions (group cs) = concat (map regions cs)"

definition scene_regions :: "'tex object3d list \<Rightarrow> (geometry \<times> 'tex meshStandardMaterial) list" where
  "scene_regions os = concat (map regions os)"

definition designated :: "(geometry \<times> 'tex meshStandardMaterial) \<Rightarrow> bool" where
  \<comment> \<open>the material carries the \<^verbatim>\<open>map\<close> prop\<close>
  "designated r = (map_prop (snd r) \<noteq> None)"

definition place :: "(geometry \<times> 'tex meshStandardMaterial) \<Rightarrow> geometry \<times> string option" where
  \<comment> \<open>which region it is: the geometry and the slot\<close>
  "place r = (fst r, attach (snd r))"

fun bound_textures :: "(geometry \<times> 'tex meshStandardMaterial) list \<Rightarrow> 'tex list" where
  \<comment> \<open>the texture handles that the materials reference\<close>
  "bound_textures [] = []"
| "bound_textures (r # rs) =
     (case map_prop (snd r) of
        Some (Some t) \<Rightarrow> t # bound_textures rs
      | _ \<Rightarrow> bound_textures rs)"

text \<open>
  The color strings of the source as three.js reads them: \<^verbatim>\<open>#rrggbb\<close> in hexadecimal,
  and the keyword \<^verbatim>\<open>white\<close>.
\<close>

definition hex_digit :: "char \<Rightarrow> nat option" where
  "hex_digit c =
     (let n = (of_char c :: nat) in
      if 48 \<le> n \<and> n \<le> 57 then Some (n - 48)
      else if 97 \<le> n \<and> n \<le> 102 then Some (n - 87)
      else if 65 \<le> n \<and> n \<le> 70 then Some (n - 55)
      else None)"

definition hex_byte :: "char \<Rightarrow> char \<Rightarrow> nat option" where
  "hex_byte a b =
     (case (hex_digit a, hex_digit b) of
        (Some x, Some y) \<Rightarrow> Some (16 * x + y)
      | _ \<Rightarrow> None)"

fun color_rgb :: "string \<Rightarrow> (nat \<times> nat \<times> nat) option" where
  "color_rgb [h, a, b, c, d, e, f] =
     (if h = CHR ''#'' then
        (case (hex_byte a b, hex_byte c d, hex_byte e f) of
           (Some r, Some g, Some bl) \<Rightarrow> Some (r, g, bl)
         | _ \<Rightarrow> None)
      else None)"
| "color_rgb s = (if s = ''white'' then Some (255, 255, 255) else None)"

definition light_tone :: "nat \<times> nat \<times> nat \<Rightarrow> bool" where
  \<comment> \<open>every channel in the upper half of its range\<close>
  "light_tone c = (case c of (r, g, b) \<Rightarrow> 128 \<le> r \<and> 128 \<le> g \<and> 128 \<le> b)"

definition dark_tone :: "nat \<times> nat \<times> nat \<Rightarrow> bool" where
  \<comment> \<open>every channel in the lower half of its range\<close>
  "dark_tone c = (case c of (r, g, b) \<Rightarrow> r < 128 \<and> g < 128 \<and> b < 128)"

subsection \<open>Reading the mounted scene\<close>

text \<open>The object kind whose comparison in \<^verbatim>\<open>Scene\<close> guards the element.\<close>

fun kind :: "'tex element \<Rightarrow> ObjectType" where
  "kind (Box_element t d) = box"
| "kind (Cylinder_element t d) = cylinder"
| "kind (Mug_element t d) = mug"
| "kind (Shirt_element t d) = shirt"

definition flat_regions :: "'tex object3d list \<Rightarrow> (geometry \<times> 'tex meshStandardMaterial) list" where
  \<comment> \<open>the regions whose material carries no \<^verbatim>\<open>map\<close> prop\<close>
  "flat_regions os = filter (\<lambda>r. \<not> designated r) (scene_regions os)"

definition designated_regions :: "'tex object3d list \<Rightarrow> (geometry \<times> 'tex meshStandardMaterial) list" where
  "designated_regions os = filter designated (scene_regions os)"

definition tone :: "(geometry \<times> 'tex meshStandardMaterial) \<Rightarrow> (nat \<times> nat \<times> nat) option" where
  \<comment> \<open>the color that the \<^verbatim>\<open>color\<close> prop of the material denotes, when it has one\<close>
  "tone r = (case color (snd r) of None \<Rightarrow> None | Some c \<Rightarrow> color_rgb c)"

section \<open>What the pattern of the upload handler accepts\<close>

lemma RegExp_image:
  "RegExp ''image.*'' =
     [One (Lit CHR ''i''), One (Lit CHR ''m''), One (Lit CHR ''a''), One (Lit CHR ''g''),
      One (Lit CHR ''e''), Star AnyChar]"
  by (simp add: re_atom_of_def)

lemma match_here_Lit: "match_here (One (Lit c) # r) s = (\<exists>xs. s = c # xs \<and> match_here r xs)"
  by (cases s) auto

lemma match_here_Star_only: "match_here [Star a] s"
  by (induction s) auto

lemma match_here_image: "match_here (RegExp ''image.*'') s = prefix ''image'' s"
  unfolding RegExp_image
  by (auto simp: match_here_Lit match_here_Star_only prefix_def)

lemma match_search_image: "match_search (RegExp ''image.*'') s = sublist ''image'' s"
proof (induction s)
  case Nil
  show ?case by (simp add: match_here_image)
next
  case (Cons x xs)
  show ?case
    using Cons.IH by (simp add: match_here_image sublist_Cons_right del: RegExp.simps)
qed

text \<open>The test of the handler holds exactly when the media type contains \<^verbatim>\<open>image\<close>.\<close>

lemma String_match_image: "String_match t ''image.*'' = sublist ''image'' t"
  by (simp add: String_match_def match_search_image del: RegExp.simps)

lemma image_slash_accepted: "prefix ''image/'' t \<Longrightarrow> String_match t ''image.*''"
proof -
  assume "prefix ''image/'' t"
  then obtain r where "t = ''image/'' @ r" by (auto simp: prefix_def)
  then have "t = [] @ ''image'' @ (CHR ''/'' # r)" by simp
  then have "sublist ''image'' t" unfolding sublist_def by blast
  then show ?thesis by (simp only: String_match_image)
qed

section \<open>The upload handler\<close>

lemma handleFileChange_no_file:
  "first_file files = None \<Longrightarrow> handleFileChange cou files ws = ws"
  by (simp add: handleFileChange_def)

lemma handleFileChange_rejected:
  "first_file files = Some f \<Longrightarrow> \<not> String_match (type f) ''image.*'' \<Longrightarrow>
   handleFileChange cou files ws = ws"
  by (simp add: handleFileChange_def)

lemma handleFileChange_accepted:
  "first_file files = Some f \<Longrightarrow> String_match (type f) ''image.*'' \<Longrightarrow>
   handleFileChange cou files (w, st) =
     (snd (cou w f), st\<lparr>textureUrl := Some (fst (cou w f))\<rparr>)"
  by (simp add: handleFileChange_def split: prod.splits)

lemma handleFileChange_frame:
  "selectedObject (snd (handleFileChange cou files ws)) = selectedObject (snd ws) \<and>
   darkMode (snd (handleFileChange cou files ws)) = darkMode (snd ws)"
  by (simp add: handleFileChange_def split: option.splits prod.splits)

lemma handleFileChange_textureUrl:
  "textureUrl (snd (handleFileChange cou files ws)) = textureUrl (snd ws) \<or>
   (\<exists>f. first_file files = Some f \<and> String_match (type f) ''image.*'' \<and>
        textureUrl (snd (handleFileChange cou files ws)) = Some (fst (cou (fst ws) f)))"
  by (simp add: handleFileChange_def split: option.splits prod.splits)

section \<open>What the scene mounts\<close>

lemma props_App_Scene: "props (App_Scene st) = st"
  by (simp add: App_Scene_def)

lemma presenters_cases:
  "presenters uT st =
     (case selectedObject st of
        box \<Rightarrow> [Box_element (Scene_texture uT (textureUrl st)) (darkMode st)]
      | sphere \<Rightarrow> []
      | cylinder \<Rightarrow> [Cylinder_element (Scene_texture uT (textureUrl st)) (darkMode st)]
      | mug \<Rightarrow> [Mug_element (Scene_texture uT (textureUrl st)) (darkMode st)]
      | shirt \<Rightarrow> [Shirt_element (Scene_texture uT (textureUrl st)) (darkMode st)])"
  by (cases "selectedObject st") (simp_all add: presenters_def props_App_Scene Scene_def)

lemma presenters_at_most_one: "length (presenters uT st) \<le> 1"
  by (simp add: presenters_cases split: ObjectType.splits)

lemma presenters_kind: "e \<in> set (presenters uT st) \<Longrightarrow> kind e = selectedObject st"
  by (auto simp: presenters_cases split: ObjectType.splits)

lemma presenters_offered:
  "selectedObject st \<in> set select_options \<Longrightarrow> \<exists>e. presenters uT st = [e]"
  by (auto simp: presenters_cases select_options_def)

section \<open>The regions of the presenters\<close>

lemma regions_Box:
  "regions (Box t d) =
     map (Pair (boxGeometry [2, 2, 2]))
       [ flat (Some ''material-0'') (if d then ''white'' else ''#e2e8f0''),
         flat (Some ''material-1'') (if d then ''white'' else ''#e2e8f0''),
         flat (Some ''material-2'') (if d then ''white'' else ''#e2e8f0''),
         flat (Some ''material-3'') (if d then ''white'' else ''#e2e8f0''),
         \<lparr>attach = Some ''material-4'', color = None, map_prop = Some t\<rparr>,
         flat (Some ''material-5'') (if d then ''white'' else ''#e2e8f0'') ]"
  by (simp add: Box_def)

lemma regions_Cylinder:
  "regions (Cylinder t d) =
     map (Pair (cylinderGeometry [1, 1, 2, 32]))
       [ \<lparr>attach = Some ''material-0'', color = None, map_prop = Some t\<rparr>,
         flat (Some ''material-1'') (if d then ''white'' else ''#e2e8f0''),
         flat (Some ''material-2'') (if d then ''white'' else ''#e2e8f0'') ]"
  by (simp add: Cylinder_def)

lemma regions_Mug:
  "regions (Mug t d) =
     [ (nodes_geometry ''plain_mug.glb'' ''Object_2'',
        \<lparr>attach = Some ''material'', color = Some (if d then ''white'' else ''#e2e8f0''),
         map_prop = Some t\<rparr>) ]"
  by (simp add: Mug_def)

lemma regions_Shirt:
  "regions (Shirt t d) =
     [ (nodes_geometry ''long_sleeve_t_shirt.glb'' ''Long_Sleeve_T-Shirt_Bahan_Dasar_FRONT_2657_0'',
        \<lparr>attach = None, color = None, map_prop = Some t\<rparr>),
       (nodes_geometry ''long_sleeve_t_shirt.glb'' ''Long_Sleeve_T-Shirt_Bahan_Dasar_FRONT_2657_0_1'',
        flat None (if d then ''#222222'' else ''#ffffff'')),
       (nodes_geometry ''long_sleeve_t_shirt.glb'' ''Long_Sleeve_T-Shirt_Material2868_0'',
        flat None (if d then ''#222222'' else ''#ffffff'')),
       (nodes_geometry ''long_sleeve_t_shirt.glb'' ''Long_Sleeve_T-Shirt_Material2868_0_1'',
        flat None (if d then ''#222222'' else ''#ffffff'')) ]"
  by (simp add: Shirt_def)

lemma flat_sel [simp]:
  "attach (flat a c) = a" "color (flat a c) = Some c" "map_prop (flat a c) = None"
  by (simp_all add: flat_def)

lemma designated_flat [simp]: "\<not> designated (g, flat a c)"
  by (simp add: designated_def flat_def)

lemma designated_map [simp]: "designated (g, \<lparr>attach = a, color = c, map_prop = Some t\<rparr>)"
  by (simp add: designated_def)

lemma tone_flat [simp]: "tone (g, flat a c) = color_rgb c"
  by (simp add: tone_def flat_def)

lemma place_flat [simp]: "place (g, flat a c) = (g, a)"
  by (simp add: place_def flat_def)

lemma rgb_white: "color_rgb ''white'' = Some (255, 255, 255)"
  by simp

lemma rgb_e2e8f0: "color_rgb ''#e2e8f0'' = Some (226, 232, 240)"
  by (simp add: hex_byte_def hex_digit_def)

lemma rgb_222222: "color_rgb ''#222222'' = Some (34, 34, 34)"
  by (simp add: hex_byte_def hex_digit_def)

lemma rgb_ffffff: "color_rgb ''#ffffff'' = Some (255, 255, 255)"
  by (simp add: hex_byte_def hex_digit_def)

lemma scene_regions_view:
  "scene_regions (view uT st) =
     (case selectedObject st of
        box \<Rightarrow> regions (Box (Scene_texture uT (textureUrl st)) (darkMode st))
      | sphere \<Rightarrow> []
      | cylinder \<Rightarrow> regions (Cylinder (Scene_texture uT (textureUrl st)) (darkMode st))
      | mug \<Rightarrow> regions (Mug (Scene_texture uT (textureUrl st)) (darkMode st))
      | shirt \<Rightarrow> regions (Shirt (Scene_texture uT (textureUrl st)) (darkMode st)))"
  by (simp add: view_def scene_regions_def presenters_cases split: ObjectType.splits)

lemma designated_regions_view:
  "designated_regions (view uT st) =
     (case selectedObject st of
        box \<Rightarrow> [(boxGeometry [2, 2, 2],
                 \<lparr>attach = Some ''material-4'', color = None,
                  map_prop = Some (Scene_texture uT (textureUrl st))\<rparr>)]
      | sphere \<Rightarrow> []
      | cylinder \<Rightarrow> [(cylinderGeometry [1, 1, 2, 32],
                 \<lparr>attach = Some ''material-0'', color = None,
                  map_prop = Some (Scene_texture uT (textureUrl st))\<rparr>)]
      | mug \<Rightarrow> [(nodes_geometry ''plain_mug.glb'' ''Object_2'',
                 \<lparr>attach = Some ''material'',
                  color = Some (if darkMode st then ''white'' else ''#e2e8f0''),
                  map_prop = Some (Scene_texture uT (textureUrl st))\<rparr>)]
      | shirt \<Rightarrow> [(nodes_geometry ''long_sleeve_t_shirt.glb''
                    ''Long_Sleeve_T-Shirt_Bahan_Dasar_FRONT_2657_0'',
                 \<lparr>attach = None, color = None,
                  map_prop = Some (Scene_texture uT (textureUrl st))\<rparr>)])"
  unfolding designated_regions_def scene_regions_view
  by (simp add: regions_Box regions_Cylinder regions_Mug regions_Shirt split: ObjectType.splits)

lemma bound_textures_filter:
  "bound_textures (filter designated rs) = bound_textures rs"
  by (induction rs) (auto simp: designated_def split: option.splits)

lemma bound_textures_view:
  "bound_textures (scene_regions (view uT st)) =
     (case selectedObject st of
        sphere \<Rightarrow> []
      | _ \<Rightarrow> (case Scene_texture uT (textureUrl st) of None \<Rightarrow> [] | Some t \<Rightarrow> [t]))"
proof -
  have "bound_textures (scene_regions (view uT st)) = bound_textures (designated_regions (view uT st))"
    by (simp add: designated_regions_def bound_textures_filter)
  then show ?thesis
    by (simp add: designated_regions_view split: ObjectType.splits option.splits)
qed

lemma flat_regions_view:
  "flat_regions (view uT st) =
     (case selectedObject st of
        box \<Rightarrow> map (Pair (boxGeometry [2, 2, 2]))
                 [ flat (Some ''material-0'') (if darkMode st then ''white'' else ''#e2e8f0''),
                   flat (Some ''material-1'') (if darkMode st then ''white'' else ''#e2e8f0''),
                   flat (Some ''material-2'') (if darkMode st then ''white'' else ''#e2e8f0''),
                   flat (Some ''material-3'') (if darkMode st then ''white'' else ''#e2e8f0''),
                   flat (Some ''material-5'') (if darkMode st then ''white'' else ''#e2e8f0'') ]
      | sphere \<Rightarrow> []
      | cylinder \<Rightarrow> map (Pair (cylinderGeometry [1, 1, 2, 32]))
                 [ flat (Some ''material-1'') (if darkMode st then ''white'' else ''#e2e8f0''),
                   flat (Some ''material-2'') (if darkMode st then ''white'' else ''#e2e8f0'') ]
      | mug \<Rightarrow> []
      | shirt \<Rightarrow>
          [ (nodes_geometry ''long_sleeve_t_shirt.glb'' ''Long_Sleeve_T-Shirt_Bahan_Dasar_FRONT_2657_0_1'',
             flat None (if darkMode st then ''#222222'' else ''#ffffff'')),
            (nodes_geometry ''long_sleeve_t_shirt.glb'' ''Long_Sleeve_T-Shirt_Material2868_0'',
             flat None (if darkMode st then ''#222222'' else ''#ffffff'')),
            (nodes_geometry ''long_sleeve_t_shirt.glb'' ''Long_Sleeve_T-Shirt_Material2868_0_1'',
             flat None (if darkMode st then ''#222222'' else ''#ffffff'')) ])"
  unfolding flat_regions_def scene_regions_view
  by (simp add: regions_Box regions_Cylinder regions_Mug regions_Shirt split: ObjectType.splits)

section \<open>The events of the page and the change of theme\<close>

lemma App_step_offered:
  "offered e \<Longrightarrow> selectedObject (snd ws) \<in> set select_options \<Longrightarrow>
   selectedObject (snd (App_step cou e ws)) \<in> set select_options"
  by (cases e) (simp_all add: handleFileChange_frame handleObjectChange_def toggleDarkMode_def)

lemma App_run_offered:
  "list_all offered es \<Longrightarrow> selectedObject (snd ws) \<in> set select_options \<Longrightarrow>
   selectedObject (snd (App_run cou es ws)) \<in> set select_options"
proof (induction es arbitrary: ws)
  case Nil
  then show ?case by simp
next
  case (Cons e es)
  from Cons.prems have "offered e" and rest: "list_all offered es" by simp_all
  with Cons.prems(2) have "selectedObject (snd (App_step cou e ws)) \<in> set select_options"
    by (rule_tac App_step_offered)
  with rest show ?case using Cons.IH by simp
qed

lemma flat_tone_changes:
  "darkMode st' = (\<not> darkMode st) \<Longrightarrow> selectedObject st' = selectedObject st \<Longrightarrow>
   map place (flat_regions (view uT st')) = map place (flat_regions (view uT st)) \<and>
   list_all2 (\<lambda>a b. tone a \<noteq> None \<and> tone b \<noteq> None \<and> tone a \<noteq> tone b)
     (flat_regions (view uT st)) (flat_regions (view uT st'))"
  by (cases "darkMode st")
     (simp_all add: flat_regions_view rgb_e2e8f0 rgb_222222 rgb_ffffff rgb_white
        split: ObjectType.splits del: color_rgb.simps)

section \<open>The claims\<close>

text \<open>
  C1. For every object kind among box, cylinder, mug and shirt, selecting that kind
  leaves exactly one presenter mounted, the one of that kind, and no presenter of
  another kind that was mounted before stays mounted; in every state (so in every
  reachable one) at most one presenter is mounted.
\<close>

theorem select_mounts_exactly_one:
  "(v \<in> {box, cylinder, mug, shirt} \<longrightarrow>
      (\<exists>e. presenters uT (handleObjectChange v st) = [e] \<and> kind e = v) \<and>
      (\<forall>e' \<in> set (presenters uT st).
         kind e' \<noteq> v \<longrightarrow> e' \<notin> set (presenters uT (handleObjectChange v st)))) \<and>
   length (presenters uT st') \<le> 1"
proof -
  have sel: "selectedObject (handleObjectChange v st) = v"
    by (simp add: handleObjectChange_def)
  have one: "\<exists>e. presenters uT (handleObjectChange v st) = [e] \<and> kind e = v"
    if "v \<in> {box, cylinder, mug, shirt}"
  proof -
    from that sel have "selectedObject (handleObjectChange v st) \<in> set select_options"
      by (simp add: select_options_def)
    then obtain e where e: "presenters uT (handleObjectChange v st) = [e]"
      using presenters_offered by blast
    then have "e \<in> set (presenters uT (handleObjectChange v st))" by simp
    then have "kind e = v" using presenters_kind sel by metis
    with e show ?thesis by blast
  qed
  have gone: "e' \<notin> set (presenters uT (handleObjectChange v st))" if "kind e' \<noteq> v" for e'
    using that presenters_kind sel by metis
  show ?thesis using one gone presenters_at_most_one by blast
qed

theorem select_mounts_exactly_one_witness:
  "shirt \<in> {box, cylinder, mug, shirt} \<and>
   presenters (\<lambda>u. u) (handleObjectChange shirt (App_init False)) = [Shirt_element None False] \<and>
   presenters (\<lambda>u. u) (App_init False) = [Box_element None False] \<and>
   Box_element None False \<notin> set (presenters (\<lambda>u. u) (handleObjectChange shirt (App_init False))) \<and>
   length (presenters (\<lambda>u. u) (App_init True)) \<le> 1"
  using select_mounts_exactly_one [of shirt "\<lambda>u. u" "App_init False" "App_init True"]
  by (simp add: presenters_cases handleObjectChange_def App_init_def Scene_texture_def)

text \<open>
  C2. When the texture source changes to a URL \<open>u\<close> of the kind that
  \<^verbatim>\<open>URL.createObjectURL\<close> hands out (a \<^verbatim>\<open>blob:\<close> URL), the key of the \<^verbatim>\<open>Scene\<close> element
  changes, so the scene is unmounted and mounted anew instead of updated in place. From
  then on, as long as the texture source is \<open>u\<close>, the region designated for the texture
  is bound to the texture loaded from \<open>u\<close>, the mounted scene references no other
  texture, and in particular not the one loaded from the previous source.
\<close>

theorem texture_change_remounts:
  assumes "textureUrl st' \<noteq> textureUrl st"
    and "textureUrl st' = Some u" and "prefix ''blob:'' u"
    and "textureUrl st'' = textureUrl st'"
  shows "remounted (App_Scene st) (App_Scene st') \<and>
    map (\<lambda>r. map_prop (snd r)) (designated_regions (view uT st'')) =
      (if selectedObject st'' = sphere then [] else [Some (Some (uT u))]) \<and>
    set (bound_textures (scene_regions (view uT st''))) \<subseteq> {uT u} \<and>
    (\<forall>u0. textureUrl st = Some u0 \<and> uT u0 \<noteq> uT u \<longrightarrow>
       uT u0 \<notin> set (bound_textures (scene_regions (view uT st''))))"
proof -
  from assms(3) obtain r where u: "u = ''blob:'' @ r"
    by (auto simp: prefix_def)
  have key: "remounted (App_Scene st) (App_Scene st')"
  proof (cases "textureUrl st")
    case None
    with assms(2) u show ?thesis
      by (simp add: remounted_def App_Scene_def React_key_def)
  next
    case (Some u0)
    with assms(1,2) show ?thesis
      by (simp add: remounted_def App_Scene_def React_key_def)
  qed
  have tex: "Scene_texture uT (textureUrl st'') = Some (uT u)"
    using assms(2,4) u by (simp add: Scene_texture_def)
  have bound: "map (\<lambda>r. map_prop (snd r)) (designated_regions (view uT st'')) =
      (if selectedObject st'' = sphere then [] else [Some (Some (uT u))])"
    by (simp add: designated_regions_view tex split: ObjectType.splits)
  have only: "set (bound_textures (scene_regions (view uT st''))) \<subseteq> {uT u}"
    by (simp add: bound_textures_view tex split: ObjectType.splits)
  from only have "uT u0 \<notin> set (bound_textures (scene_regions (view uT st'')))"
    if "uT u0 \<noteq> uT u" for u0
    using that by auto
  with key bound only show ?thesis by blast
qed

theorem texture_change_remounts_witness:
  "textureUrl (snd (App_run (\<lambda>w f. (''blob:'' @ name f, Suc w))
      [FileChange (Some [\<lparr>name = ''a.png'', type = ''image/png''\<rparr>])] (0 :: nat, App_init False)))
     = Some ''blob:a.png'' \<and>
   textureUrl (snd (App_run (\<lambda>w f. (''blob:'' @ name f, Suc w))
      [FileChange (Some [\<lparr>name = ''a.png'', type = ''image/png''\<rparr>]),
       FileChange (Some [\<lparr>name = ''b.png'', type = ''image/png''\<rparr>])] (0 :: nat, App_init False)))
     = Some ''blob:b.png'' \<and>
   remounted
     (App_Scene (snd (App_run (\<lambda>w f. (''blob:'' @ name f, Suc w))
        [FileChange (Some [\<lparr>name = ''a.png'', type = ''image/png''\<rparr>])] (0 :: nat, App_init False))))
     (App_Scene (snd (App_run (\<lambda>w f. (''blob:'' @ name f, Suc w))
        [FileChange (Some [\<lparr>name = ''a.png'', type = ''image/png''\<rparr>]),
         FileChange (Some [\<lparr>name = ''b.png'', type = ''image/png''\<rparr>])] (0 :: nat, App_init False)))) \<and>
   bound_textures (scene_regions (view (\<lambda>u. u)
     (snd (App_run (\<lambda>w f. (''blob:'' @ name f, Suc w))
        [FileChange (Some [\<lparr>name = ''a.png'', type = ''image/png''\<rparr>]),
         FileChange (Some [\<lparr>name = ''b.png'', type = ''image/png''\<rparr>])] (0 :: nat, App_init False)))))
     = [''blob:b.png''] \<and>
   ''blob:a.png'' \<notin> set (bound_textures (scene_regions (view (\<lambda>u. u)
     (snd (App_run (\<lambda>w f. (''blob:'' @ name f, Suc w))
        [FileChange (Some [\<lparr>name = ''a.png'', type = ''image/png''\<rparr>]),
         FileChange (Some [\<lparr>name = ''b.png'', type = ''image/png''\<rparr>])] (0 :: nat, App_init False))))))"
proof -
  let ?cou = "\<lambda>(w :: nat) f. (''blob:'' @ name f, Suc w)"
  let ?a = "\<lparr>name = ''a.png'', type = ''image/png''\<rparr>"
  let ?b = "\<lparr>name = ''b.png'', type = ''image/png''\<rparr>"
  let ?st1 = "snd (App_run ?cou [FileChange (Some [?a])] (0 :: nat, App_init False))"
  let ?st2 = "snd (App_run ?cou [FileChange (Some [?a]), FileChange (Some [?b])] (0 :: nat, App_init False))"
  have png: "String_match ''image/png'' ''image.*''"
    by (rule image_slash_accepted) simp
  have st1: "?st1 = \<lparr>textureUrl = Some ''blob:a.png'', selectedObject = box, darkMode = False\<rparr>"
    by (simp add: handleFileChange_def first_file_def png App_init_def)
  have st2: "?st2 = \<lparr>textureUrl = Some ''blob:b.png'', selectedObject = box, darkMode = False\<rparr>"
    by (simp add: handleFileChange_def first_file_def png App_init_def)
  have changed: "textureUrl ?st2 \<noteq> textureUrl ?st1"
    unfolding st1 st2 by simp
  have url: "textureUrl ?st2 = Some ''blob:b.png''"
    unfolding st2 by simp
  have tex: "bound_textures (scene_regions (view (\<lambda>u. u) ?st2)) = [''blob:b.png'']"
    unfolding st2 by (simp add: bound_textures_view Scene_texture_def)
  have blob: "prefix ''blob:'' ''blob:b.png''"
    by simp
  have "remounted (App_Scene ?st1) (App_Scene ?st2) \<and>
        ''blob:a.png'' \<notin> set (bound_textures (scene_regions (view (\<lambda>u. u) ?st2)))"
    using texture_change_remounts [OF changed url blob refl, of "\<lambda>u. u"]
    unfolding st1 by simp
  with tex url show ?thesis unfolding st1 by simp
qed

text \<open>
  C3, at a file whose media type is not of the form \<^verbatim>\<open>image/...\<close> but contains the
  letters \<^verbatim>\<open>image\<close>: the pattern of the handler is searched for anywhere in the media
  type, so the handler takes the file (here a disk image) and replaces the texture
  source with a URL derived from it.
\<close>

theorem disk_image_upload_accepted:
  "\<not> prefix ''image/'' ''application/x-apple-diskimage'' \<and>
   String_match ''application/x-apple-diskimage'' ''image.*'' \<and>
   handleFileChange cou
       (Some [\<lparr>name = ''setup.dmg'', type = ''application/x-apple-diskimage''\<rparr>]) (w, st) =
     (snd (cou w \<lparr>name = ''setup.dmg'', type = ''application/x-apple-diskimage''\<rparr>),
      st\<lparr>textureUrl :=
           Some (fst (cou w \<lparr>name = ''setup.dmg'', type = ''application/x-apple-diskimage''\<rparr>))\<rparr>)"
proof -
  have m: "String_match ''application/x-apple-diskimage'' ''image.*''"
    by (simp add: String_match_def re_atom_of_def line_terminator_def)
  have f: "first_file (Some [\<lparr>name = ''setup.dmg'', type = ''application/x-apple-diskimage''\<rparr>])
             = Some \<lparr>name = ''setup.dmg'', type = ''application/x-apple-diskimage''\<rparr>"
    by (simp add: first_file_def)
  have "type \<lparr>name = ''setup.dmg'', type = ''application/x-apple-diskimage''\<rparr>
          = ''application/x-apple-diskimage''"
    by simp
  with m f show ?thesis
    using handleFileChange_accepted [of _ "\<lparr>name = ''setup.dmg'', type = ''application/x-apple-diskimage''\<rparr>" cou w st]
    by simp
qed

text \<open>
  C4. In every state without a texture source, whatever the object kind and the theme,
  no material of the mounted scene references a texture: the mounted presenter (there
  is one for box, cylinder, mug and shirt) has one region designated for the texture,
  and the map of its material is null.
\<close>

theorem no_texture_source_no_image:
  "textureUrl st = None \<Longrightarrow>
   bound_textures (scene_regions (view uT st)) = [] \<and>
   map (\<lambda>r. map_prop (snd r)) (designated_regions (view uT st)) =
     (if selectedObject st = sphere then [] else [Some None])"
  by (simp add: bound_textures_view designated_regions_view Scene_texture_def
      split: ObjectType.splits)

theorem no_texture_source_no_image_witness:
  "textureUrl (handleObjectChange mug (App_init True)) = None \<and>
   bound_textures (scene_regions (view (\<lambda>u. u) (handleObjectChange mug (App_init True)))) = [] \<and>
   map (\<lambda>r. map_prop (snd r)) (designated_regions (view (\<lambda>u. u) (handleObjectChange mug (App_init True))))
     = [Some None]"
  using no_texture_source_no_image [of "handleObjectChange mug (App_init True)" "\<lambda>u. u"]
  by (simp add: handleObjectChange_def App_init_def)

text \<open>
  C5. In every state, toggling the theme keeps the object kind and the texture source,
  keeps the regions of the mounted presenter that are not designated for the texture in
  place, and gives each of them a color different from the one it had.
\<close>

theorem toggle_changes_flat_tone:
  "selectedObject (toggleDarkMode st) = selectedObject st \<and>
   textureUrl (toggleDarkMode st) = textureUrl st \<and>
   map place (flat_regions (view uT (toggleDarkMode st))) = map place (flat_regions (view uT st)) \<and>
   list_all2 (\<lambda>a b. tone a \<noteq> None \<and> tone b \<noteq> None \<and> tone a \<noteq> tone b)
     (flat_regions (view uT st)) (flat_regions (view uT (toggleDarkMode st)))"
proof -
  have "darkMode (toggleDarkMode st) = (\<not> darkMode st)"
    and sel: "selectedObject (toggleDarkMode st) = selectedObject st"
    and url: "textureUrl (toggleDarkMode st) = textureUrl st"
    by (simp_all add: toggleDarkMode_def)
  then show ?thesis using flat_tone_changes [of "toggleDarkMode st" st uT] by simp
qed

theorem toggle_changes_flat_tone_witness:
  "map tone (flat_regions (view (\<lambda>u. u) (handleObjectChange shirt (App_init False))))
     = [Some (255, 255, 255), Some (255, 255, 255), Some (255, 255, 255)] \<and>
   map tone (flat_regions (view (\<lambda>u. u) (toggleDarkMode (handleObjectChange shirt (App_init False)))))
     = [Some (34, 34, 34), Some (34, 34, 34), Some (34, 34, 34)] \<and>
   selectedObject (toggleDarkMode (handleObjectChange shirt (App_init False))) = shirt"
  using toggle_changes_flat_tone [of "handleObjectChange shirt (App_init False)" "\<lambda>u. u"]
  by (simp add: flat_regions_view toggleDarkMode_def handleObjectChange_def App_init_def
      rgb_222222 rgb_ffffff del: color_rgb.simps)

text \<open>
  C6. For every texture and theme the Box presenter has six materials on the six slots
  of the cube; exactly one of them (slot 4) carries the map prop, bound to the supplied
  texture, and each of the other five has the flat color \<^verbatim>\<open>#e2e8f0\<close>, a light tone, in
  light mode and \<^verbatim>\<open>white\<close>, a different color, in dark mode.
\<close>

theorem Box_binds_one_face:
  "map place (regions (Box t d)) =
     map (\<lambda>s. (boxGeometry [2, 2, 2], Some s))
       [''material-0'', ''material-1'', ''material-2'', ''material-3'', ''material-4'', ''material-5''] \<and>
   distinct (map place (regions (Box t d))) \<and>
   filter designated (regions (Box t d)) =
     [(boxGeometry [2, 2, 2], \<lparr>attach = Some ''material-4'', color = None, map_prop = Some t\<rparr>)] \<and>
   map (\<lambda>r. (attach (snd r), color (snd r))) (filter (\<lambda>r. \<not> designated r) (regions (Box t d))) =
     map (\<lambda>s. (Some s, Some (if d then ''white'' else ''#e2e8f0'')))
       [''material-0'', ''material-1'', ''material-2'', ''material-3'', ''material-5''] \<and>
   map tone (filter (\<lambda>r. \<not> designated r) (regions (Box t d))) =
     replicate 5 (Some (if d then (255, 255, 255) else (226, 232, 240))) \<and>
   light_tone (226, 232, 240) \<and>
   (255, 255, 255) \<noteq> (226 :: nat, 232 :: nat, 240 :: nat)"
proof -
  have places: "map place (regions (Box t d)) =
     map (\<lambda>s. (boxGeometry [2, 2, 2], Some s))
       [''material-0'', ''material-1'', ''material-2'', ''material-3'', ''material-4'', ''material-5'']"
    by (simp add: regions_Box place_def)
  have "distinct (map place (regions (Box t d)))"
    unfolding places by simp
  moreover have "map (\<lambda>r. (attach (snd r), color (snd r))) (filter (\<lambda>r. \<not> designated r) (regions (Box t d))) =
     map (\<lambda>s. (Some s, Some (if d then ''white'' else ''#e2e8f0'')))
       [''material-0'', ''material-1'', ''material-2'', ''material-3'', ''material-5'']"
    by (simp add: regions_Box)
  moreover have "map tone (filter (\<lambda>r. \<not> designated r) (regions (Box t d))) =
     replicate 5 (Some (if d then (255, 255, 255) else (226, 232, 240)))"
    by (simp add: regions_Box rgb_e2e8f0 rgb_white numeral_eq_Suc del: color_rgb.simps)
  moreover have "filter designated (regions (Box t d)) =
     [(boxGeometry [2, 2, 2], \<lparr>attach = Some ''material-4'', color = None, map_prop = Some t\<rparr>)]"
    by (simp add: regions_Box)
  moreover have "light_tone (226, 232, 240)"
    by (simp add: light_tone_def)
  ultimately show ?thesis using places by simp
qed

theorem Box_binds_one_face_witness:
  "filter designated (regions (Box (Some ''blob:1'') True)) =
     [(boxGeometry [2, 2, 2],
       \<lparr>attach = Some ''material-4'', color = None, map_prop = Some (Some ''blob:1'')\<rparr>)] \<and>
   map tone (filter (\<lambda>r. \<not> designated r) (regions (Box (Some ''blob:1'') True))) =
     [Some (255, 255, 255), Some (255, 255, 255), Some (255, 255, 255), Some (255, 255, 255),
      Some (255, 255, 255)]"
  using Box_binds_one_face [of "Some ''blob:1''" True]
  by (simp add: numeral_eq_Suc)

text \<open>
  C7. For every texture and theme the Shirt presenter carries the map prop, bound to the
  supplied texture, on the material of the front panel sub-mesh only; each of the other
  three sub-meshes has the flat color \<^verbatim>\<open>#222222\<close>, a dark tone, in dark mode and
  \<^verbatim>\<open>#ffffff\<close>, a light tone, in light mode. From the initial state with the light theme
  (object kind box, no upload), selecting shirt mounts the Shirt presenter alone, with
  the null map on the front panel and the light-mode color on the other sub-meshes.
\<close>

theorem Shirt_binds_front_panel:
  "filter designated (regions (Shirt t d)) =
     [(nodes_geometry ''long_sleeve_t_shirt.glb'' ''Long_Sleeve_T-Shirt_Bahan_Dasar_FRONT_2657_0'',
       \<lparr>attach = None, color = None, map_prop = Some t\<rparr>)] \<and>
   map (\<lambda>r. (fst r, color (snd r))) (filter (\<lambda>r. \<not> designated r) (regions (Shirt t d))) =
     map (\<lambda>n. (nodes_geometry ''long_sleeve_t_shirt.glb'' n,
                Some (if d then ''#222222'' else ''#ffffff'')))
       [''Long_Sleeve_T-Shirt_Bahan_Dasar_FRONT_2657_0_1'',
        ''Long_Sleeve_T-Shirt_Material2868_0'',
        ''Long_Sleeve_T-Shirt_Material2868_0_1''] \<and>
   map tone (filter (\<lambda>r. \<not> designated r) (regions (Shirt t d))) =
     replicate 3 (Some (if d then (34, 34, 34) else (255, 255, 255))) \<and>
   dark_tone (34, 34, 34) \<and> light_tone (255, 255, 255) \<and>
   selectedObject (App_init False) = box \<and> \<not> darkMode (App_init False) \<and>
   textureUrl (App_init False) = None \<and>
   presenters uT (handleObjectChange shirt (App_init False)) = [Shirt_element None False] \<and>
   map (\<lambda>r. map_prop (snd r))
     (designated_regions (view uT (handleObjectChange shirt (App_init False)))) = [Some None] \<and>
   map tone (flat_regions (view uT (handleObjectChange shirt (App_init False)))) =
     replicate 3 (Some (255, 255, 255))"
proof -
  have front: "filter designated (regions (Shirt t d)) =
     [(nodes_geometry ''long_sleeve_t_shirt.glb'' ''Long_Sleeve_T-Shirt_Bahan_Dasar_FRONT_2657_0'',
       \<lparr>attach = None, color = None, map_prop = Some t\<rparr>)]"
    by (simp add: regions_Shirt)
  have others: "map (\<lambda>r. (fst r, color (snd r))) (filter (\<lambda>r. \<not> designated r) (regions (Shirt t d))) =
     map (\<lambda>n. (nodes_geometry ''long_sleeve_t_shirt.glb'' n,
                Some (if d then ''#222222'' else ''#ffffff'')))
       [''Long_Sleeve_T-Shirt_Bahan_Dasar_FRONT_2657_0_1'',
        ''Long_Sleeve_T-Shirt_Material2868_0'',
        ''Long_Sleeve_T-Shirt_Material2868_0_1'']"
    by (simp add: regions_Shirt)
  have tones: "map tone (filter (\<lambda>r. \<not> designated r) (regions (Shirt t d))) =
     replicate 3 (Some (if d then (34, 34, 34) else (255, 255, 255)))"
    by (simp add: regions_Shirt rgb_222222 rgb_ffffff numeral_eq_Suc del: color_rgb.simps)
  have tone_kinds: "dark_tone (34, 34, 34) \<and> light_tone (255, 255, 255)"
    by (simp add: dark_tone_def light_tone_def)
  have start: "selectedObject (App_init False) = box \<and> \<not> darkMode (App_init False) \<and>
     textureUrl (App_init False) = None"
    by (simp add: App_init_def)
  have mounts: "presenters uT (handleObjectChange shirt (App_init False)) = [Shirt_element None False]"
    by (simp add: presenters_cases handleObjectChange_def App_init_def Scene_texture_def)
  have panel: "map (\<lambda>r. map_prop (snd r))
     (designated_regions (view uT (handleObjectChange shirt (App_init False)))) = [Some None]"
    by (simp add: designated_regions_view handleObjectChange_def App_init_def Scene_texture_def)
  have tint: "map tone (flat_regions (view uT (handleObjectChange shirt (App_init False)))) =
     replicate 3 (Some (255, 255, 255))"
    by (simp add: flat_regions_view handleObjectChange_def App_init_def rgb_ffffff numeral_eq_Suc
        del: color_rgb.simps)
  from front others tones tone_kinds start mounts panel tint show ?thesis
    by (intro conjI) simp_all
qed

theorem Shirt_binds_front_panel_witness:
  "map (\<lambda>r. map_prop (snd r)) (filter designated (regions (Shirt (Some ''blob:1'') True))) =
     [Some (Some ''blob:1'')] \<and>
   map tone (filter (\<lambda>r. \<not> designated r) (regions (Shirt (Some ''blob:1'') True))) =
     [Some (34, 34, 34), Some (34, 34, 34), Some (34, 34, 34)] \<and>
   presenters (\<lambda>u. u) (handleObjectChange shirt (App_init False)) = [Shirt_element None False]"
  using Shirt_binds_front_panel [of "Some ''blob:1''" True "\<lambda>u. u"]
  by (simp add: numeral_eq_Suc)

text \<open>
  C8. The object kind starts as box; after any sequence of events that the controls of
  the page offer it is one of box, cylinder, mug and shirt, and each of these four is
  reached.
\<close>

theorem object_kind_range:
  "selectedObject (App_init d) = box \<and>
   (list_all offered es \<longrightarrow>
      selectedObject (snd (App_run cou es (w, App_init d))) \<in> {box, cylinder, mug, shirt}) \<and>
   (\<forall>v \<in> {box, cylinder, mug, shirt}.
      \<exists>es'. list_all offered es' \<and> selectedObject (snd (App_run cou es' (w, App_init d))) = v)"
proof -
  have init: "selectedObject (App_init d) = box"
    by (simp add: App_init_def)
  have inv: "selectedObject (snd (App_run cou es (w, App_init d))) \<in> {box, cylinder, mug, shirt}"
    if "list_all offered es"
  proof -
    have "selectedObject (snd (w, App_init d)) \<in> set select_options"
      by (simp add: init select_options_def)
    with that have "selectedObject (snd (App_run cou es (w, App_init d))) \<in> set select_options"
      by (rule App_run_offered)
    then show ?thesis by (simp add: select_options_def)
  qed
  have reach: "\<exists>es'. list_all offered es' \<and> selectedObject (snd (App_run cou es' (w, App_init d))) = v"
    if "v \<in> {box, cylinder, mug, shirt}" for v
  proof -
    from that have "list_all offered [ObjectChange v]"
      by (auto simp: select_options_def)
    moreover have "selectedObject (snd (App_run cou [ObjectChange v] (w, App_init d))) = v"
      by (simp add: handleObjectChange_def)
    ultimately show ?thesis by blast
  qed
  show ?thesis using init inv reach by blast
qed

theorem object_kind_range_witness:
  "list_all offered [ToggleDarkMode, ObjectChange mug, FileChange None] \<and>
   selectedObject (App_init False) = box \<and>
   selectedObject (snd (App_run (\<lambda>w f. (''blob:'' @ name f, Suc w))
      [ToggleDarkMode, ObjectChange mug, FileChange None] (0 :: nat, App_init False))) = mug"
  using object_kind_range [of False "[ToggleDarkMode, ObjectChange mug, FileChange None]"
      "\<lambda>w f. (''blob:'' @ name f, Suc w)" "0 :: nat"]
  by (simp add: select_options_def handleFileChange_def first_file_def handleObjectChange_def
      toggleDarkMode_def App_init_def)

text \<open>
  C9. The type of the object kind has a fifth value, sphere, which the selector does not
  offer. For every texture source and theme, when the selected object is sphere every
  child of the fragment of \<^verbatim>\<open>Scene\<close> is \<^verbatim>\<open>false\<close>: no presenter is mounted, so the
  number of mounted presenters is not one.
\<close>

theorem sphere_mounts_nothing:
  "(UNIV :: ObjectType set) = {box, sphere, cylinder, mug, shirt} \<and>
   sphere \<notin> {box, cylinder, mug, shirt} \<and>
   Scene uT \<lparr>textureUrl = url, selectedObject = sphere, darkMode = d\<rparr> = [None, None, None, None] \<and>
   mounted (Scene uT \<lparr>textureUrl = url, selectedObject = sphere, darkMode = d\<rparr>) = [] \<and>
   presenters uT (handleObjectChange sphere st) = [] \<and>
   length (presenters uT (handleObjectChange sphere st)) \<noteq> 1"
proof -
  have "(UNIV :: ObjectType set) = {box, sphere, cylinder, mug, shirt}"
  proof (rule set_eqI)
    fix x :: ObjectType
    show "x \<in> UNIV \<longleftrightarrow> x \<in> {box, sphere, cylinder, mug, shirt}"
      by (cases x) simp_all
  qed
  moreover have "Scene uT \<lparr>textureUrl = url, selectedObject = sphere, darkMode = d\<rparr>
                   = [None, None, None, None]"
    by (simp add: Scene_def)
  moreover have "presenters uT (handleObjectChange sphere st) = []"
    by (simp add: presenters_cases handleObjectChange_def)
  ultimately show ?thesis by simp
qed

theorem sphere_mounts_nothing_witness:
  "Scene (\<lambda>u. u) \<lparr>textureUrl = Some ''blob:1'', selectedObject = sphere, darkMode = True\<rparr>
     = [None, None, None, None] \<and>
   presenters (\<lambda>u. u) (handleObjectChange sphere (App_init False)) = []"
  using sphere_mounts_nothing [of "\<lambda>u. u" "Some ''blob:1''" True "App_init False"]
  by simp

text \<open>
  C10. The material designated for the texture on the Box (front face), on the Cylinder
  (lateral surface) and on the Shirt (front panel) has no color prop: for every texture,
  also the null one, it is the same material under both themes. In a state that mounts
  one of these presenters, toggling the theme leaves the designated region as it was and
  changes the color of every other region.
\<close>

theorem designated_color_fixed:
  "filter designated (regions (Box t d)) = filter designated (regions (Box t d')) \<and>
   map (\<lambda>r. color (snd r)) (filter designated (regions (Box t d))) = [None] \<and>
   filter designated (regions (Cylinder t d)) = filter designated (regions (Cylinder t d')) \<and>
   map (\<lambda>r. color (snd r)) (filter designated (regions (Cylinder t d))) = [None] \<and>
   filter designated (regions (Shirt t d)) = filter designated (regions (Shirt t d')) \<and>
   map (\<lambda>r. color (snd r)) (filter designated (regions (Shirt t d))) = [None] \<and>
   (selectedObject st \<in> {box, cylinder, shirt} \<longrightarrow>
      designated_regions (view uT (toggleDarkMode st)) = designated_regions (view uT st) \<and>
      map tone (designated_regions (view uT st)) = [None] \<and>
      list_all2 (\<lambda>a b. tone a \<noteq> None \<and> tone b \<noteq> None \<and> tone a \<noteq> tone b)
        (flat_regions (view uT st)) (flat_regions (view uT (toggleDarkMode st))))"
proof -
  have presenters: "filter designated (regions (Box t d)) = filter designated (regions (Box t d')) \<and>
     map (\<lambda>r. color (snd r)) (filter designated (regions (Box t d))) = [None] \<and>
     filter designated (regions (Cylinder t d)) = filter designated (regions (Cylinder t d')) \<and>
     map (\<lambda>r. color (snd r)) (filter designated (regions (Cylinder t d))) = [None] \<and>
     filter designated (regions (Shirt t d)) = filter designated (regions (Shirt t d')) \<and>
     map (\<lambda>r. color (snd r)) (filter designated (regions (Shirt t d))) = [None]"
    by (simp add: regions_Box regions_Cylinder regions_Shirt)
  have toggled: "darkMode (toggleDarkMode st) = (\<not> darkMode st)"
    "selectedObject (toggleDarkMode st) = selectedObject st"
    "textureUrl (toggleDarkMode st) = textureUrl st"
    by (simp_all add: toggleDarkMode_def)
  have app: "designated_regions (view uT (toggleDarkMode st)) = designated_regions (view uT st) \<and>
      map tone (designated_regions (view uT st)) = [None]"
    if "selectedObject st \<in> {box, cylinder, shirt}"
    using that by (auto simp: designated_regions_view toggled tone_def)
  show ?thesis
    using presenters app flat_tone_changes [of "toggleDarkMode st" st uT] toggled by blast
qed

theorem designated_color_fixed_witness:
  "selectedObject (App_init False) \<in> {box, cylinder, shirt} \<and>
   designated_regions (view (\<lambda>u. u) (toggleDarkMode (App_init False))) =
     [(boxGeometry [2, 2, 2], \<lparr>attach = Some ''material-4'', color = None, map_prop = Some None\<rparr>)] \<and>
   designated_regions (view (\<lambda>u. u) (App_init False)) =
     [(boxGeometry [2, 2, 2], \<lparr>attach = Some ''material-4'', color = None, map_prop = Some None\<rparr>)] \<and>
   map tone (flat_regions (view (\<lambda>u. u) (App_init False))) = replicate 5 (Some (226, 232, 240)) \<and>
   map tone (flat_regions (view (\<lambda>u. u) (toggleDarkMode (App_init False)))) =
     replicate 5 (Some (255, 255, 255))"
  using designated_color_fixed [of "None :: string option" False True "App_init False" "\<lambda>u. u"]
  by (simp add: designated_regions_view flat_regions_view toggleDarkMode_def App_init_def
      Scene_texture_def rgb_e2e8f0 rgb_white numeral_eq_Suc del: color_rgb.simps)

end
